theory Spec2Isabelle
  imports Main "HOL-Library.AList"
begin

section \<open>Values, errors, classes and factories\<close>

text \<open>
  The container of \<^verbatim>\<open>Container.ts\<close> works on a JavaScript heap: records, arrays of
  records, plain objects used as key/record mappings, containers and collections are all
  objects with identity, and several of them are shared between owners. The model keeps
  one list per kind of object; a reference is an index into that list, and allocation
  appends, so that a new reference is always different from every reference in use.
\<close>

type_synonym ref = nat

text \<open>
  Runtime values as far as the container looks at them: \<^verbatim>\<open>typeof v === 'undefined'\<close>,
  the truthiness of \<^verbatim>\<open>v\<close> and whether \<^verbatim>\<open>v.dispose\<close> is a function. Numbers are
  integers. A value is never a function: a function given to \<^verbatim>\<open>register\<close> is
  taken as a factory.
\<close>

datatype val =
    VUndefined
  | VNull
  | VBool bool
  | VNum int
  | VStr string
  | VObj ref
  | VArr "val list"

fun truthy :: "val \<Rightarrow> bool" where
  "truthy VUndefined = False"
| "truthy VNull = False"
| "truthy (VBool b) = b"
| "truthy (VNum n) = (n \<noteq> 0)"
| "truthy (VStr s) = (s \<noteq> [])"
| "truthy (VObj r) = True"
| "truthy (VArr vs) = True"

text \<open>
  \<^verbatim>\<open>Error msg\<close> is \<^verbatim>\<open>new Error(msg)\<close> thrown by the container itself,
  \<^verbatim>\<open>TypeError\<close> is raised by the runtime when a missing method is called, and
  \<^verbatim>\<open>Thrown\<close> is whatever user code (a factory or a constructor) throws.
\<close>

datatype error = Error string | TypeError string | Thrown string

text \<open>
  \<^verbatim>\<open>IDependencyMetadata\<close>; the property key of a constructor parameter is always
  undefined and is never read. A class (\<^verbatim>\<open>Newable<T>\<close>) carries what the container
  can observe of it: the metadata list that \<^verbatim>\<open>getDependencyMetadata\<close> returns for it,
  in the order in which \<^verbatim>\<open>inject\<close> pushed the entries, whether its constructor
  throws, and whether its instances have a \<^verbatim>\<open>dispose\<close> method.
\<close>

record meta =
  dependencyKey :: string
  parameterIndex :: nat

record newable =
  cname :: string
  metadata :: "meta list"
  ctor_throws :: "string option"
  disposable :: bool

text \<open>
  A \<^verbatim>\<open>ValueFactoryDelegate\<close>. \<^verbatim>\<open>Constant v\<close> is the closure \<^verbatim>\<open>() => value\<close> that
  the constructor of \<^verbatim>\<open>ConfiguredDependency\<close> builds around a plain value,
  \<^verbatim>\<open>AutoWire c\<close> is the closure returned by \<^verbatim>\<open>createAutoWireFactory(c)\<close>. The other
  three are the user-written functions of the model: \<^verbatim>\<open>() => v\<close>,
  \<^verbatim>\<open>() => { throw e }\<close> and \<^verbatim>\<open>() => new C(...args)\<close>.
\<close>

datatype factory =
    Constant val
  | AutoWire newable
  | Returning val
  | Throwing string
  | Creating newable "val list"

definition createAutoWireFactory :: "newable \<Rightarrow> factory" where
  "createAutoWireFactory c = AutoWire c"

text \<open>The argument \<^verbatim>\<open>value: T | ValueFactoryDelegate<T>\<close>, told apart by \<^verbatim>\<open>typeof\<close>.\<close>

datatype registration = Value val | Function factory

section \<open>The heap\<close>

text \<open>
  The two classes that implement \<^verbatim>\<open>IConfiguredDependency\<close> and are ever stored:
  \<^verbatim>\<open>ConfiguredDependency\<close> (key, factory, value) and \<^verbatim>\<open>ArrayDependency\<close> (key,
  resolved, and a reference to the array \<^verbatim>\<open>values\<close>, which is shared by reference).
\<close>

datatype dep =
    ConfiguredDependency string factory val
  | ArrayDependency string bool ref

record container =
  cvalues :: ref
  parent :: "ref option"
  provenance :: "string option"

text \<open>
  \<^verbatim>\<open>records\<close> holds the plain objects of type \<^verbatim>\<open>Record<string, IConfiguredDependency>\<close>
  as association lists in insertion order with one entry per key. Keys are own properties:
  the model assumes that no key is the name of a member inherited from
  \<^verbatim>\<open>Object.prototype\<close> (such as \<^verbatim>\<open>toString\<close>). \<^verbatim>\<open>collections\<close> holds the field
  \<^verbatim>\<open>values\<close> of every \<^verbatim>\<open>ServiceCollection\<close>. \<^verbatim>\<open>objects\<close> holds the instances
  made by \<^verbatim>\<open>new\<close>, with their class and constructor arguments. \<^verbatim>\<open>invoked\<close> and
  \<^verbatim>\<open>disposed\<close> are ghost logs: the factories called, and the objects whose
  \<^verbatim>\<open>dispose()\<close> was called, in order.
\<close>

record state =
  deps :: "dep list"
  arrays :: "ref list list"
  records :: "(string \<times> ref) list list"
  containers :: "container list"
  collections :: "ref list"
  objects :: "(newable \<times> val list) list"
  invoked :: "factory list"
  disposed :: "ref list"

definition empty_state :: state where
  "empty_state = \<lparr>deps = [], arrays = [], records = [], containers = [], collections = [],
     objects = [], invoked = [], disposed = []\<rparr>"

definition lookup :: "'a list \<Rightarrow> ref \<Rightarrow> 'a option" where
  "lookup xs r = (if r < length xs then Some (xs ! r) else None)"

text \<open>\<^verbatim>\<open>new constructor(...params)\<close>: the constructor throws, or a new object exists.\<close>

definition new_object :: "state \<Rightarrow> newable \<Rightarrow> val list \<Rightarrow> state \<times> (error + val)" where
  "new_object s c args =
     (case ctor_throws c of
        Some e \<Rightarrow> (s, Inl (Thrown e))
      | None \<Rightarrow> (s\<lparr>objects := objects s @ [(c, args)]\<rparr>, Inr (VObj (length (objects s)))))"

section \<open>Dependency records\<close>

text \<open>The constructor of \<^verbatim>\<open>ConfiguredDependency\<close>.\<close>

fun new_ConfiguredDependency :: "string \<Rightarrow> registration \<Rightarrow> dep" where
  "new_ConfiguredDependency key (Function f) = ConfiguredDependency key f VUndefined"
| "new_ConfiguredDependency key (Value v) = ConfiguredDependency key (Constant v) v"

fun isResolved :: "dep \<Rightarrow> bool" where
  "isResolved (ConfiguredDependency key f v) = (v \<noteq> VUndefined)"
| "isResolved (ArrayDependency key resolved a) = resolved"

text \<open>The assignment \<^verbatim>\<open>this.value = v\<close> on the record at \<^verbatim>\<open>r\<close>.\<close>

definition set_value :: "state \<Rightarrow> ref \<Rightarrow> val \<Rightarrow> state" where
  "set_value s r v =
     (case lookup (deps s) r of
        Some (ConfiguredDependency key f old) \<Rightarrow>
          s\<lparr>deps := (deps s)[r := ConfiguredDependency key f v]\<rparr>
      | _ \<Rightarrow> s)"

text \<open>
  Resolution. \<^verbatim>\<open>getService\<close> is \<^verbatim>\<open>ServiceContainer._getService\<close>, which is also what
  \<^verbatim>\<open>parent.get(key)\<close> and \<^verbatim>\<open>container.get(dependencyKey)\<close> run for one key;
  \<^verbatim>\<open>resolveValue\<close> is the method of the two record classes; \<^verbatim>\<open>callFactory\<close> is the
  call \<^verbatim>\<open>factory(container)\<close>, whose \<^verbatim>\<open>AutoWire\<close> case is the closure of
  \<^verbatim>\<open>createAutoWireFactory\<close>; \<^verbatim>\<open>getEach\<close> and \<^verbatim>\<open>resolveEach\<close> are the two
  \<^verbatim>\<open>map\<close> calls. A factory may resolve other keys, and nothing detects a cycle, so the
  functions take fuel: each call of a method uses one unit, and \<^verbatim>\<open>None\<close> means that the
  fuel ran out (or that a reference points nowhere, which no JavaScript heap does). A
  thrown error is \<^verbatim>\<open>Inl\<close>; the state that comes with it holds what was written before
  the throw. The functions terminate because every method call uses up fuel, and the two
  list traversals keep the fuel and shorten the list.
\<close>

function (sequential) getService :: "nat \<Rightarrow> state \<Rightarrow> ref \<Rightarrow> string \<Rightarrow> (state \<times> (error + val)) option"
and resolveValue :: "nat \<Rightarrow> state \<Rightarrow> ref \<Rightarrow> ref \<Rightarrow> (state \<times> (error + val)) option"
and callFactory :: "nat \<Rightarrow> state \<Rightarrow> factory \<Rightarrow> ref \<Rightarrow> (state \<times> (error + val)) option"
and getEach :: "nat \<Rightarrow> state \<Rightarrow> ref \<Rightarrow> string list \<Rightarrow> (state \<times> (error + val list)) option"
and resolveEach :: "nat \<Rightarrow> state \<Rightarrow> ref list \<Rightarrow> ref \<Rightarrow> (state \<times> (error + val list)) option"
where
  "getService 0 s c key = None"
| "getService (Suc n) s c key =
     (case lookup (containers s) c of
        None \<Rightarrow> None
      | Some this \<Rightarrow>
          (case lookup (records s) (cvalues this) of
             None \<Rightarrow> None
           | Some m \<Rightarrow>
               (case map_of m key of
                  None \<Rightarrow>
                    (case parent this of
                       Some p \<Rightarrow> getService n s p key
                     | None \<Rightarrow> Some (s, Inl (Error (''Unrecognized service: '' @ key))))
                | Some r \<Rightarrow> resolveValue n s r c)))"
| "resolveValue 0 s r c = None"
| "resolveValue (Suc n) s r c =
     (case lookup (deps s) r of
        None \<Rightarrow> None
      | Some (ConfiguredDependency key f v) \<Rightarrow>
          (if v = VUndefined then
             (case callFactory n s f c of
                None \<Rightarrow> None
              | Some (s', Inl e) \<Rightarrow> Some (s', Inl e)
              | Some (s', Inr v') \<Rightarrow> Some (set_value s' r v', Inr v'))
           else Some (s, Inr v))
      | Some (ArrayDependency key resolved a) \<Rightarrow>
          (let s1 = s\<lparr>deps := (deps s)[r := ArrayDependency key True a]\<rparr> in
           case lookup (arrays s1) a of
             None \<Rightarrow> None
           | Some rs \<Rightarrow>
               (case resolveEach n s1 rs c of
                  None \<Rightarrow> None
                | Some (s', Inl e) \<Rightarrow> Some (s', Inl e)
                | Some (s', Inr vs) \<Rightarrow> Some (s', Inr (VArr vs)))))"
| "callFactory 0 s f c = None"
| "callFactory (Suc n) s f c =
     (let s1 = s\<lparr>invoked := invoked s @ [f]\<rparr> in
      case f of
        Constant v \<Rightarrow> Some (s1, Inr v)
      | Returning v \<Rightarrow> Some (s1, Inr v)
      | Throwing e \<Rightarrow> Some (s1, Inl (Thrown e))
      | Creating cl args \<Rightarrow> Some (new_object s1 cl args)
      | AutoWire cl \<Rightarrow>
          (if metadata cl = [] then Some (new_object s1 cl [])
           else
             (case getEach n s1 c (map dependencyKey (rev (metadata cl))) of
                None \<Rightarrow> None
              | Some (s2, Inl e) \<Rightarrow> Some (s2, Inl e)
              | Some (s2, Inr params) \<Rightarrow> Some (new_object s2 cl params))))"
| "getEach n s c [] = Some (s, Inr [])"
| "getEach n s c (key # keys) =
     (case getService n s c key of
        None \<Rightarrow> None
      | Some (s1, Inl e) \<Rightarrow> Some (s1, Inl e)
      | Some (s1, Inr v) \<Rightarrow>
          (case getEach n s1 c keys of
             None \<Rightarrow> None
           | Some (s2, Inl e) \<Rightarrow> Some (s2, Inl e)
           | Some (s2, Inr vs) \<Rightarrow> Some (s2, Inr (v # vs))))"
| "resolveEach n s [] c = Some (s, Inr [])"
| "resolveEach n s (r # rs) c =
     (case resolveValue n s r c of
        None \<Rightarrow> None
      | Some (s1, Inl e) \<Rightarrow> Some (s1, Inl e)
      | Some (s1, Inr v) \<Rightarrow>
          (case resolveEach n s1 rs c of
             None \<Rightarrow> None
           | Some (s2, Inl e) \<Rightarrow> Some (s2, Inl e)
           | Some (s2, Inr vs) \<Rightarrow> Some (s2, Inr (v # vs))))"
  by pat_completeness auto

termination
  by (relation "(\<lambda>x. case x of Inl (Inl (n, _)) \<Rightarrow> 2 * n | Inl (Inr (n, _)) \<Rightarrow> 2 * n
        | Inr (Inl (n, _)) \<Rightarrow> 2 * n | Inr (Inr (Inl (n, _))) \<Rightarrow> 2 * n + 1
        | Inr (Inr (Inr (n, _))) \<Rightarrow> 2 * n + 1) <*mlex*>
      (\<lambda>x. case x of Inr (Inr (Inl (n, s, c, ks))) \<Rightarrow> length ks
        | Inr (Inr (Inr (n, s, rs, c))) \<Rightarrow> length rs | _ \<Rightarrow> 0) <*mlex*> {}")
    (auto simp: wf_mlex mlex_less mlex_leq)

section \<open>The resolution container\<close>

text \<open>
  \<^verbatim>\<open>ServiceContainer.get\<close>: one key, or an array of two to ten keys resolved in order;
  any other array length throws. \<^verbatim>\<open>resolve\<close> runs the auto-wire factory of a class
  against the container.
\<close>

datatype keys = Key string | Keys "string list"

definition get :: "nat \<Rightarrow> state \<Rightarrow> ref \<Rightarrow> keys \<Rightarrow> (state \<times> (error + val)) option" where
  "get n s c ks =
     (case ks of
        Key key \<Rightarrow> getService n s c key
      | Keys l \<Rightarrow>
          (if 2 \<le> length l \<and> length l \<le> 10 then
             (case getEach n s c l of
                None \<Rightarrow> None
              | Some (s', Inl e) \<Rightarrow> Some (s', Inl e)
              | Some (s', Inr vs) \<Rightarrow> Some (s', Inr (VArr vs)))
           else Some (s, Inl (Error ''Unsupported overload''))))"


text \<open>
  \<^verbatim>\<open>typeof dependency.value.dispose === 'function'\<close> holds for an instance of a class
  with a \<^verbatim>\<open>dispose\<close> method only. The call \<^verbatim>\<open>dependency.value.dispose()\<close> is user
  code; in the model it returns normally and is written to the log.
\<close>

definition has_dispose :: "state \<Rightarrow> val \<Rightarrow> bool" where
  "has_dispose s v =
     (case v of
        VObj ob \<Rightarrow> (case lookup (objects s) ob of Some (cl, args) \<Rightarrow> disposable cl | None \<Rightarrow> False)
      | _ \<Rightarrow> False)"

definition call_dispose :: "state \<Rightarrow> val \<Rightarrow> state" where
  "call_dispose s v = (case v of VObj ob \<Rightarrow> s\<lparr>disposed := disposed s @ [ob]\<rparr> | _ \<Rightarrow> s)"

text \<open>
  \<^verbatim>\<open>destroy\<close> casts the record to \<^verbatim>\<open>ConfiguredDependency\<close> and tests
  \<^verbatim>\<open>dependency && dependency.value\<close>, a truthiness test. An \<^verbatim>\<open>ArrayDependency\<close> has
  no field \<^verbatim>\<open>value\<close>, so for it the test reads \<^verbatim>\<open>undefined\<close> and nothing happens.
\<close>

definition destroy :: "state \<Rightarrow> ref \<Rightarrow> string \<Rightarrow> state option" where
  "destroy s c key =
     (case lookup (containers s) c of
        None \<Rightarrow> None
      | Some this \<Rightarrow>
          (case lookup (records s) (cvalues this) of
             None \<Rightarrow> None
           | Some m \<Rightarrow>
               (case map_of m key of
                  None \<Rightarrow> Some s
                | Some r \<Rightarrow>
                    (case lookup (deps s) r of
                       None \<Rightarrow> None
                     | Some (ConfiguredDependency k f v) \<Rightarrow>
                         (if truthy v then
                            Some (set_value (if has_dispose s v then call_dispose s v else s) r VUndefined)
                          else Some s)
                     | Some (ArrayDependency k resolved a) \<Rightarrow> Some s))))"

text \<open>The keys of the entries whose record answers \<^verbatim>\<open>isResolved()\<close> with the given flag.\<close>

definition keys_where :: "bool \<Rightarrow> state \<Rightarrow> (string \<times> ref) list \<Rightarrow> string list" where
  "keys_where b s m =
     map fst (filter (\<lambda>(k, r). case lookup (deps s) r of Some d \<Rightarrow> isResolved d = b | None \<Rightarrow> False) m)"

fun destroy_each :: "state \<Rightarrow> ref \<Rightarrow> string list \<Rightarrow> state option" where
  "destroy_each s c [] = Some s"
| "destroy_each s c (key # keys) =
     (case destroy s c key of None \<Rightarrow> None | Some s' \<Rightarrow> destroy_each s' c keys)"

definition dispose :: "state \<Rightarrow> ref \<Rightarrow> state option" where
  "dispose s c =
     (case lookup (containers s) c of
        None \<Rightarrow> None
      | Some this \<Rightarrow>
          (case lookup (records s) (cvalues this) of
             None \<Rightarrow> None
           | Some m \<Rightarrow> destroy_each s c (keys_where True s m)))"

text \<open>
  \<^verbatim>\<open>clone\<close>: \<^verbatim>\<open>new ConfiguredDependency(this.key, this.factory)\<close>, and
  \<^verbatim>\<open>new ArrayDependency(this.key, this.values)\<close>, which passes the array itself.
\<close>

fun clone :: "dep \<Rightarrow> dep" where
  "clone (ConfiguredDependency key f v) = new_ConfiguredDependency key (Function f)"
| "clone (ArrayDependency key resolved a) = ArrayDependency key False a"

text \<open>
  The \<^verbatim>\<open>forEach\<close> of \<^verbatim>\<open>createChildContainer\<close>: \<^verbatim>\<open>values[key] = this.values[key].clone()\<close>,
  where \<^verbatim>\<open>m\<close> is \<^verbatim>\<open>this.values\<close> and \<^verbatim>\<open>vs\<close> the new mapping.
\<close>

fun clone_each :: "(string \<times> ref) list \<Rightarrow> state \<Rightarrow> (string \<times> ref) list \<Rightarrow> string list \<Rightarrow>
    (state \<times> (string \<times> ref) list) option" where
  "clone_each m s vs [] = Some (s, vs)"
| "clone_each m s vs (key # keys) =
     (case map_of m key of
        None \<Rightarrow> None
      | Some r \<Rightarrow>
          (case lookup (deps s) r of
             None \<Rightarrow> None
           | Some d \<Rightarrow>
               clone_each m (s\<lparr>deps := deps s @ [clone d]\<rparr>)
                 (AList.update key (length (deps s)) vs) keys))"

definition createChildContainer :: "state \<Rightarrow> ref \<Rightarrow> string \<Rightarrow> (state \<times> ref) option" where
  "createChildContainer s c prov =
     (case lookup (containers s) c of
        None \<Rightarrow> None
      | Some this \<Rightarrow>
          (case lookup (records s) (cvalues this) of
             None \<Rightarrow> None
           | Some m \<Rightarrow>
               (case clone_each m s [] (keys_where False s m) of
                  None \<Rightarrow> None
                | Some (s1, vs) \<Rightarrow>
                    Some (s1\<lparr>records := records s1 @ [vs],
                              containers := containers s1 @
                                [\<lparr>cvalues = length (records s1), parent = Some c,
                                  provenance = Some prov\<rparr>]\<rparr>,
                          length (containers s1)))))"

section \<open>The registration collection\<close>

text \<open>The decimal numeral of a number, for the template string \<^verbatim>\<open>`${key}-${length}`\<close>.\<close>

function string_of_nat :: "nat \<Rightarrow> string" where
  "string_of_nat n =
     (if n < 10 then [''0123456789'' ! n]
      else string_of_nat (n div 10) @ [''0123456789'' ! (n mod 10)])"
  by pat_completeness auto
termination
  by (relation "measure id") auto

declare string_of_nat.simps [simp del]

definition new_ServiceCollection :: "state \<Rightarrow> state \<times> ref" where
  "new_ServiceCollection s =
     (s\<lparr>records := records s @ [[]], collections := collections s @ [length (records s)]\<rparr>,
      length (collections s))"

text \<open>The mapping object that the field \<^verbatim>\<open>values\<close> of collection \<^verbatim>\<open>x\<close> points to.\<close>

definition getValues :: "state \<Rightarrow> ref \<Rightarrow> (string \<times> ref) list option" where
  "getValues s x =
     (case lookup (collections s) x of None \<Rightarrow> None | Some mr \<Rightarrow> lookup (records s) mr)"

definition register :: "state \<Rightarrow> ref \<Rightarrow> string \<Rightarrow> registration \<Rightarrow> state option" where
  "register s x key reg =
     (case lookup (collections s) x of
        None \<Rightarrow> None
      | Some mr \<Rightarrow>
          (case lookup (records s) mr of
             None \<Rightarrow> None
           | Some m \<Rightarrow>
               Some (s\<lparr>deps := deps s @ [new_ConfiguredDependency key reg],
                        records := (records s)[mr := AList.update key (length (deps s)) m]\<rparr>)))"

text \<open>
  \<^verbatim>\<open>ArrayDependency.register\<close> and \<^verbatim>\<open>ArrayDependency.push\<close> on the record at \<^verbatim>\<open>r\<close>:
  a new \<^verbatim>\<open>ConfiguredDependency\<close> is pushed onto the array. Called on a
  \<^verbatim>\<open>ConfiguredDependency\<close>, which has neither method, the call is a \<^verbatim>\<open>TypeError\<close>.
\<close>

definition push_entry :: "string \<Rightarrow> state \<Rightarrow> ref \<Rightarrow> registration \<Rightarrow> (state \<times> (error + unit)) option" where
  "push_entry method s r reg =
     (case lookup (deps s) r of
        None \<Rightarrow> None
      | Some (ConfiguredDependency k f v) \<Rightarrow>
          Some (s, Inl (TypeError (''dependency.'' @ method @ '' is not a function'')))
      | Some (ArrayDependency key resolved a) \<Rightarrow>
          (case lookup (arrays s) a of
             None \<Rightarrow> None
           | Some rs \<Rightarrow>
               Some (s\<lparr>deps := deps s @
                          [new_ConfiguredDependency (key @ ''-'' @ string_of_nat (length rs)) reg],
                        arrays := (arrays s)[a := rs @ [length (deps s)]]\<rparr>, Inr ())))"

text \<open>
  The common part of \<^verbatim>\<open>add\<close> and \<^verbatim>\<open>addDependency\<close>: the record under the key, a new
  \<^verbatim>\<open>ArrayDependency\<close> with a new empty array when \<^verbatim>\<open>this.values[key]\<close> is undefined.
\<close>

definition array_for :: "state \<Rightarrow> ref \<Rightarrow> string \<Rightarrow> (state \<times> ref) option" where
  "array_for s x key =
     (case lookup (collections s) x of
        None \<Rightarrow> None
      | Some mr \<Rightarrow>
          (case lookup (records s) mr of
             None \<Rightarrow> None
           | Some m \<Rightarrow>
               (case map_of m key of
                  Some r \<Rightarrow> Some (s, r)
                | None \<Rightarrow>
                    Some (s\<lparr>deps := deps s @ [ArrayDependency key False (length (arrays s))],
                             arrays := arrays s @ [[]],
                             records := (records s)[mr := AList.update key (length (deps s)) m]\<rparr>,
                          length (deps s)))))"

definition add :: "state \<Rightarrow> ref \<Rightarrow> string \<Rightarrow> newable \<Rightarrow> (state \<times> (error + unit)) option" where
  "add s x key cl =
     (case array_for s x key of
        None \<Rightarrow> None
      | Some (s1, r) \<Rightarrow> push_entry ''push'' s1 r (Function (createAutoWireFactory cl)))"

definition addDependency :: "state \<Rightarrow> ref \<Rightarrow> string \<Rightarrow> registration \<Rightarrow> (state \<times> (error + unit)) option" where
  "addDependency s x key reg =
     (case array_for s x key of
        None \<Rightarrow> None
      | Some (s1, r) \<Rightarrow> push_entry ''register'' s1 r reg)"

definition use :: "state \<Rightarrow> ref \<Rightarrow> string \<Rightarrow> newable \<Rightarrow> state option" where
  "use s x key cl = register s x key (Function (createAutoWireFactory cl))"

definition isRegistered :: "state \<Rightarrow> ref \<Rightarrow> string \<Rightarrow> bool option" where
  "isRegistered s x key = (case getValues s x of None \<Rightarrow> None | Some m \<Rightarrow> Some (map_of m key \<noteq> None))"

text \<open>\<^verbatim>\<open>new ServiceContainer(this.values)\<close>: the container is given the mapping object itself.\<close>

definition buildContainer :: "state \<Rightarrow> ref \<Rightarrow> (state \<times> ref) option" where
  "buildContainer s x =
     (case lookup (collections s) x of
        None \<Rightarrow> None
      | Some mr \<Rightarrow>
          Some (s\<lparr>containers := containers s @ [\<lparr>cvalues = mr, parent = None, provenance = None\<rparr>]\<rparr>,
                length (containers s)))"

text \<open>
  The object spread \<^verbatim>\<open>{ ...a, ...b }\<close>: a new object with the entries of \<^verbatim>\<open>a\<close>, then
  every entry of \<^verbatim>\<open>b\<close> assigned in order. \<^verbatim>\<open>import_collection\<close> is \<^verbatim>\<open>ServiceCollection.import\<close>,
  which points the field \<^verbatim>\<open>values\<close> of the collection to that new object.
\<close>

definition spread :: "(string \<times> ref) list \<Rightarrow> (string \<times> ref) list \<Rightarrow> (string \<times> ref) list" where
  "spread a b = fold (\<lambda>(k, r). AList.update k r) b a"

definition import_collection :: "state \<Rightarrow> ref \<Rightarrow> ref \<Rightarrow> state option" where
  "import_collection s x y =
     (case getValues s x of
        None \<Rightarrow> None
      | Some xm \<Rightarrow>
          (case getValues s y of
             None \<Rightarrow> None
           | Some ym \<Rightarrow>
               Some (s\<lparr>records := records s @ [spread xm ym],
                        collections := (collections s)[x := length (records s)]\<rparr>)))"

text \<open>\<^verbatim>\<open>ServiceCollection.resolve\<close>: a temporary container, disposed in \<^verbatim>\<open>finally\<close>.\<close>

definition collection_resolve :: "nat \<Rightarrow> state \<Rightarrow> ref \<Rightarrow> string \<Rightarrow> (state \<times> (error + val)) option" where
  "collection_resolve n s x key =
     (case buildContainer s x of
        None \<Rightarrow> None
      | Some (s1, c) \<Rightarrow>
          (case get n s1 c (Key key) of
             None \<Rightarrow> None
           | Some (s2, res) \<Rightarrow>
               (case dispose s2 c of None \<Rightarrow> None | Some s3 \<Rightarrow> Some (s3, res))))"

section \<open>Notions used by the statements\<close>


text \<open>
  What resolution leaves alone. \<^verbatim>\<open>same_shape\<close>: the same class of record with the same
  key and the same factory or array; only the cached value or the flag may differ.
  \<^verbatim>\<open>frame s s'\<close>: the containers, the mapping objects, the arrays, the collections and
  the log of dispose calls are the same, and every record has kept its shape.
\<close>

fun same_shape :: "dep \<Rightarrow> dep \<Rightarrow> bool" where
  "same_shape (ConfiguredDependency k f v) (ConfiguredDependency k' f' v') = (k = k' \<and> f = f')"
| "same_shape (ArrayDependency k res a) (ArrayDependency k' res' a') = (k = k' \<and> a = a')"
| "same_shape d d' = False"

definition frame :: "state \<Rightarrow> state \<Rightarrow> bool" where
  "frame s s' \<longleftrightarrow> containers s' = containers s \<and> records s' = records s \<and> arrays s' = arrays s \<and>
     collections s' = collections s \<and> disposed s' = disposed s \<and> list_all2 same_shape (deps s) (deps s')"

text \<open>
  \<^verbatim>\<open>get_times fuel N s c key\<close> calls \<^verbatim>\<open>get(key)\<close> on container \<^verbatim>\<open>c\<close> \<^verbatim>\<open>N\<close> times in
  a row, as the loop of the test \<^verbatim>\<open>Resolving values only instantiates them once\<close>
  does, and collects the results.
\<close>

fun get_times :: "nat \<Rightarrow> nat \<Rightarrow> state \<Rightarrow> ref \<Rightarrow> string \<Rightarrow> (state \<times> (error + val) list) option" where
  "get_times fuel 0 s c key = Some (s, [])"
| "get_times fuel (Suc k) s c key =
     (case get fuel s c (Key key) of
        None \<Rightarrow> None
      | Some (s1, res) \<Rightarrow>
          (case get_times fuel k s1 c key of
             None \<Rightarrow> None
           | Some (s2, rs) \<Rightarrow> Some (s2, res # rs)))"


section \<open>Example classes and states\<close>

text \<open>
  The class \<^verbatim>\<open>SampleService\<close> of the tests, taken without constructor parameters, and
  a class whose instances have a \<^verbatim>\<open>dispose\<close> method.
\<close>

definition SampleService :: newable where
  "SampleService = \<lparr>cname = ''SampleService'', metadata = [], ctor_throws = None, disposable = False\<rparr>"

definition Connection :: newable where
  "Connection = \<lparr>cname = ''Connection'', metadata = [], ctor_throws = None, disposable = True\<rparr>"





text \<open>
  Two collections as in the test \<^verbatim>\<open>Importing services with collisions\<close>: collection 0
  holds \<^verbatim>\<open>key1\<close>, collection 1 holds \<^verbatim>\<open>key2\<close> and \<^verbatim>\<open>key1\<close>.
\<close>

definition collision :: state where
  "collision =
     (let (s0, x) = new_ServiceCollection empty_state;
          (s1, y) = new_ServiceCollection s0;
          s2 = the (register s1 x ''key1'' (Value (VStr ''value1'')));
          s3 = the (register s2 y ''key2'' (Value (VStr ''value2'')));
          s4 = the (register s3 y ''key1'' (Value (VStr ''value3'')))
      in s4)"

text \<open>
  A collection that holds the factory \<^verbatim>\<open>() => new SampleService()\<close> under the key
  \<^verbatim>\<open>sample\<close>; the container built from it (container 0); and that container after
  \<^verbatim>\<open>get('sample')\<close>, when the record holds the object 0.
\<close>

definition sample :: state where
  "sample =
     (let (s0, x) = new_ServiceCollection empty_state
      in the (register s0 x ''sample'' (Function (Creating SampleService []))))"

definition built :: state where
  "built = fst (the (buildContainer sample 0))"




section \<open>Basic facts\<close>

lemma lookup_Some_iff: "lookup xs r = Some x \<longleftrightarrow> r < length xs \<and> xs ! r = x"
  by (simp add: lookup_def)

lemma lookup_append_new [simp]: "lookup (xs @ [x]) (length xs) = Some x"
  by (simp add: lookup_def)


lemma lookup_update_same: "r < length xs \<Longrightarrow> lookup (xs[r := x]) r = Some x"
  by (simp add: lookup_def)

lemma lookup_less: "lookup xs r = Some y \<Longrightarrow> r < length xs"
  by (auto simp: lookup_def split: if_splits)

section \<open>Resolution changes cached values, flags, objects and the call log only\<close>

lemma same_shape_refl [simp]: "same_shape d d"
  by (cases d) auto

lemma same_shape_trans: "same_shape a b \<Longrightarrow> same_shape b c \<Longrightarrow> same_shape a c"
  by (cases a; cases b; cases c) auto

lemma frame_refl [simp]: "frame s s"
  by (simp add: frame_def list_all2_refl)

lemma frame_trans: "frame a b \<Longrightarrow> frame b c \<Longrightarrow> frame a c"
  unfolding frame_def
  by (auto elim: list_all2_trans[rotated] intro: same_shape_trans)

lemma list_all2_update_shape:
  "r < length xs \<Longrightarrow> same_shape (xs ! r) d \<Longrightarrow> list_all2 same_shape xs (xs[r := d])"
  by (auto simp: list_all2_conv_all_nth nth_list_update)

lemma frame_set_value [simp]: "frame s (set_value s r v)"
  by (auto simp: frame_def set_value_def lookup_def list_all2_refl split: dep.splits
      intro!: list_all2_update_shape)

lemma frame_invoked [simp]: "frame s (s\<lparr>invoked := l\<rparr>)"
  by (simp add: frame_def list_all2_refl)

lemma frame_new_object: "new_object s cl args = (s', res) \<Longrightarrow> frame s s'"
  by (auto simp: new_object_def frame_def list_all2_refl split: option.splits)

lemma frame_flag: "lookup (deps s) r = Some (ArrayDependency k res a) \<Longrightarrow>
   frame s (s\<lparr>deps := (deps s)[r := ArrayDependency k b a]\<rparr>)"
  by (auto simp: frame_def lookup_def split: if_splits intro!: list_all2_update_shape)

lemma frame_all:
  "getService n s c key = Some (s', res) \<Longrightarrow> frame s s'"
  "resolveValue n s r c = Some (s', res) \<Longrightarrow> frame s s'"
  "callFactory n s f c = Some (s', res) \<Longrightarrow> frame s s'"
  "getEach n s c ks = Some (s', lres) \<Longrightarrow> frame s s'"
  "resolveEach n s rs c = Some (s', lres) \<Longrightarrow> frame s s'"
proof (induction n s c key and n s r c and n s f c and n s c ks and n s rs c
    arbitrary: s' res and s' res and s' res and s' lres and s' lres
    rule: getService_resolveValue_callFactory_getEach_resolveEach.induct)
  case (1 s c key)
  then show ?case by simp
next
  case (2 n s c key)
  then show ?case
    by (auto split: option.splits)
next
  case (3 s r c)
  then show ?case by simp
next
  case (4 n s r c)
  show ?case
  proof (cases "lookup (deps s) r")
    case None
    with 4 show ?thesis by simp
  next
    case (Some d)
    show ?thesis
    proof (cases d)
      case (ConfiguredDependency k f v)
      with Some 4(1)[OF Some ConfiguredDependency] 4(3) show ?thesis
        by (auto split: if_splits option.splits sum.splits prod.splits intro: frame_trans)
    next
      case (ArrayDependency k b a)
      with Some 4(2)[OF Some ArrayDependency refl] 4(3)
        frame_flag[OF Some[unfolded ArrayDependency], of True] show ?thesis
        by (auto simp: Let_def split: if_splits option.splits sum.splits prod.splits intro: frame_trans)
    qed
  qed
next
  case (5 s f c)
  then show ?case by simp
next
  case (6 n s f c)
  show ?case
  proof (cases f)
    case (AutoWire cl)
    with 6(1)[OF refl AutoWire] 6(2) show ?thesis
      by (auto simp: Let_def split: if_splits option.splits sum.splits prod.splits
          dest!: frame_new_object intro: frame_trans frame_invoked)
  qed (use 6(2) in \<open>auto simp: Let_def dest!: frame_new_object intro: frame_trans frame_invoked\<close>)
next
  case (7 n s c)
  then show ?case by simp
next
  case (8 n s c key keys)
  from 8(3) show ?case
    by (auto split: option.splits sum.splits prod.splits dest: 8(1) 8(2) intro: frame_trans)
next
  case (9 n s c)
  then show ?case by simp
next
  case (10 n s r rs c)
  from 10(3) show ?case
    by (auto split: option.splits sum.splits prod.splits dest: 10(1) 10(2) intro: frame_trans)
qed

section \<open>The example states\<close>

lemma string_of_nat_0 [simp]: "string_of_nat 0 = ''0''"
  by (simp add: string_of_nat.simps[of 0])


lemma collision_eq:
  "collision = \<lparr>deps =
      [ConfiguredDependency ''key1'' (Constant (VStr ''value1'')) (VStr ''value1''),
       ConfiguredDependency ''key2'' (Constant (VStr ''value2'')) (VStr ''value2''),
       ConfiguredDependency ''key1'' (Constant (VStr ''value3'')) (VStr ''value3'')],
      arrays = [], records = [[(''key1'', 0)], [(''key2'', 1), (''key1'', 2)]],
      containers = [], collections = [0, 1], objects = [], invoked = [],
      disposed = []\<rparr>"
  by (simp add: collision_def new_ServiceCollection_def empty_state_def register_def lookup_def)

lemma sample_eq:
  "sample = \<lparr>deps = [ConfiguredDependency ''sample'' (Creating SampleService []) VUndefined],
      arrays = [], records = [[(''sample'', 0)]], containers = [], collections = [0],
      objects = [], invoked = [], disposed = []\<rparr>"
  by (simp add: sample_def new_ServiceCollection_def empty_state_def register_def lookup_def)


lemma built_eq:
  "built = \<lparr>deps = [ConfiguredDependency ''sample'' (Creating SampleService []) VUndefined],
      arrays = [], records = [[(''sample'', 0)]],
      containers = [\<lparr>cvalues = 0, parent = None, provenance = None\<rparr>], collections = [0],
      objects = [], invoked = [], disposed = []\<rparr>"
  by (simp add: built_def sample_eq buildContainer_def lookup_def)



section \<open>Lookup by key (C8)\<close>




section \<open>Import (C9)\<close>

lemma map_of_spread:
  "distinct (map fst b) \<Longrightarrow> map_of (spread a b) = map_of a ++ map_of b"
  unfolding spread_def
proof (induction b arbitrary: a)
  case Nil
  then show ?case by simp
next
  case (Cons p b)
  obtain k r where p: "p = (k, r)" by (cases p)
  from Cons.prems p have nk: "map_of b k = None"
    by (auto simp: map_of_eq_None_iff)
  have "map_of (fold (\<lambda>(k, r). AList.update k r) (p # b) a) = map_of (AList.update k r a) ++ map_of b"
    using Cons p by simp
  also have "\<dots> = map_of a ++ map_of (p # b)"
    using nk p by (auto simp: update_conv' map_add_def fun_eq_iff split: option.splits)
  finally show ?case .
qed

text \<open>
  C9. When collections \<^verbatim>\<open>x\<close> and \<^verbatim>\<open>y\<close> both hold a key, \<^verbatim>\<open>x.import(y)\<close> succeeds,
  copies no record, and leaves \<^verbatim>\<open>x\<close> with a mapping that is the mapping of \<^verbatim>\<open>x\<close>
  overridden by the mapping of \<^verbatim>\<open>y\<close>: the record under the key is the record of
  \<^verbatim>\<open>y\<close>. A container built from \<^verbatim>\<open>x\<close> resolves the key through that record, so
  when the record of \<^verbatim>\<open>y\<close> holds a value, \<^verbatim>\<open>get\<close> returns that value.
\<close>

theorem import_incoming_wins:
  assumes x: "getValues s x = Some xm"
    and y: "getValues s y = Some ym"
    and dy: "distinct (map fst ym)"
    and kx: "map_of xm key = Some rx"
    and ky: "map_of ym key = Some ry"
  shows "\<exists>s' m'. import_collection s x y = Some s' \<and> getValues s' x = Some m' \<and> deps s' = deps s
       \<and> map_of m' key = Some ry
       \<and> map_of m' = map_of xm ++ map_of ym
       \<and> (\<exists>s'' c. buildContainer s' x = Some (s'', c)
            \<and> get (Suc n) s'' c (Key key) = resolveValue n s'' ry c
            \<and> (\<forall>k f v. lookup (deps s) ry = Some (ConfiguredDependency k f v) \<and> v \<noteq> VUndefined \<longrightarrow>
                  get (Suc (Suc n)) s'' c (Key key) = Some (s'', Inr v)))"
proof -
  define m' where "m' = spread xm ym"
  define s' where "s' = s\<lparr>records := records s @ [m'], collections := (collections s)[x := length (records s)]\<rparr>"
  define s'' where "s'' = s'\<lparr>containers := containers s' @
      [\<lparr>cvalues = length (records s), parent = None, provenance = None\<rparr>]\<rparr>"
  from x have xl: "x < length (collections s)"
    by (auto simp: getValues_def dest: lookup_less split: option.splits)
  have imp: "import_collection s x y = Some s'"
    using x y by (simp add: import_collection_def s'_def m'_def)
  have cx: "lookup (collections s') x = Some (length (records s))"
    using xl by (simp add: s'_def lookup_update_same)
  then have gv: "getValues s' x = Some m'"
    by (simp add: getValues_def s'_def)
  have mm: "map_of m' = map_of xm ++ map_of ym"
    using dy by (simp add: m'_def map_of_spread)
  with ky have mk: "map_of m' key = Some ry"
    by simp
  have bc: "buildContainer s' x = Some (s'', length (containers s'))"
    using cx by (simp add: buildContainer_def s''_def)
  have g: "get (Suc n) s'' (length (containers s')) (Key key) = resolveValue n s'' ry (length (containers s'))" for n
    using mk by (simp add: get_def s''_def s'_def)
  have "get (Suc (Suc n)) s'' (length (containers s')) (Key key) = Some (s'', Inr v)"
    if "lookup (deps s) ry = Some (ConfiguredDependency k f v)" "v \<noteq> VUndefined" for k f v
    using that by (simp add: g) (simp add: s''_def s'_def)
  with imp gv mm mk bc g show ?thesis
    by (auto simp: s'_def)
qed

theorem import_incoming_wins_witness:
  "\<exists>s' m'. import_collection collision 0 1 = Some s' \<and> getValues s' 0 = Some m'
     \<and> map_of m' ''key1'' = Some 2
     \<and> (\<exists>s'' c. buildContainer s' 0 = Some (s'', c)
          \<and> get (Suc (Suc 0)) s'' c (Key ''key1'') = Some (s'', Inr (VStr ''value3'')))"
proof -
  have x: "getValues collision 0 = Some [(''key1'', 0)]"
    and y: "getValues collision 1 = Some [(''key2'', 1), (''key1'', 2)]"
    and r: "lookup (deps collision) 2 =
      Some (ConfiguredDependency ''key1'' (Constant (VStr ''value3'')) (VStr ''value3''))"
    by (simp_all add: collision_eq getValues_def lookup_def)
  from import_incoming_wins[OF x y, of "''key1''" 0 2 0] r
  show ?thesis by fastforce
qed

section \<open>Building a container (C7)\<close>





section \<open>Registering (C10)\<close>









section \<open>Resolving once (C2)\<close>

text \<open>
  C2 as stated fails for a factory that returns \<^verbatim>\<open>undefined\<close>, as the factory
  \<^verbatim>\<open>() => undefined\<close> of the test \<^verbatim>\<open>isResolved() - false\<close> does: the record tests
  \<^verbatim>\<open>typeof this.value === 'undefined'\<close>, so nothing is ever cached and two calls of
  \<^verbatim>\<open>get\<close> call the factory twice.
\<close>

theorem resolve_once_counterexample:
  "(let (s0, x) = new_ServiceCollection empty_state;
        s1 = the (register s0 x ''test'' (Function (Returning VUndefined)));
        (s2, c) = the (buildContainer s1 x);
        (s3, rs) = the (get_times 3 2 s2 c ''test'')
    in (rs, invoked s3)) =
   ([Inr VUndefined, Inr VUndefined], [Returning VUndefined, Returning VUndefined])"
  by (simp add: new_ServiceCollection_def empty_state_def register_def buildContainer_def get_def
      lookup_def set_value_def eval_nat_numeral)

lemma frame_shape:
  assumes "frame s s'" and "lookup (deps s) r = Some (ConfiguredDependency k f v)"
  shows "\<exists>v'. lookup (deps s') r = Some (ConfiguredDependency k f v')"
proof -
  from assms have l: "r < length (deps s)" "deps s ! r = ConfiguredDependency k f v"
    by (auto simp: lookup_Some_iff)
  from assms(1) have a: "list_all2 same_shape (deps s) (deps s')"
    by (simp add: frame_def)
  with l have "same_shape (ConfiguredDependency k f v) (deps s' ! r)" "r < length (deps s')"
    by (auto simp: list_all2_conv_all_nth)
  then show ?thesis
    by (cases "deps s' ! r") (auto simp: lookup_def)
qed

lemma set_value_lookup:
  "lookup (deps s) r = Some (ConfiguredDependency k f v) \<Longrightarrow>
   lookup (deps (set_value s r w)) r = Some (ConfiguredDependency k f w)"
  by (auto simp: set_value_def lookup_def split: if_splits)

lemma cached_resolveValue:
  "lookup (deps s) r = Some (ConfiguredDependency k f v) \<Longrightarrow> v \<noteq> VUndefined \<Longrightarrow>
   resolveValue (Suc n) s r c = Some (s, Inr v)"
  by simp

lemma cached_get_times:
  assumes "lookup (containers s) c = Some this"
    and "lookup (records s) (cvalues this) = Some m"
    and "map_of m key = Some r"
    and "lookup (deps s) r = Some (ConfiguredDependency k f v)"
    and "v \<noteq> VUndefined"
  shows "get_times (Suc (Suc n)) N s c key = Some (s, replicate N (Inr v))"
  using assms by (induction N) (simp_all add: get_def)

text \<open>
  C2, amended. Let a container hold under a key a single record that is not resolved, and
  let the call of its factory against this container return a value other than
  \<^verbatim>\<open>undefined\<close>. Then \<^verbatim>\<open>N + 1\<close> calls of \<^verbatim>\<open>get\<close> all return that value and end in
  the state of the one call of the factory with the value cached in the record: the call
  log is that of the one call (for a factory that is no auto-wire factory, the old log and
  one entry). And whenever the record holds a value other than \<^verbatim>\<open>undefined\<close>,
  \<^verbatim>\<open>resolveValue\<close> returns it and changes nothing.
\<close>

theorem resolve_once:
  assumes c: "lookup (containers s) c = Some this"
    and m: "lookup (records s) (cvalues this) = Some m"
    and k: "map_of m key = Some r"
    and d: "lookup (deps s) r = Some (ConfiguredDependency k f VUndefined)"
    and call: "callFactory n s f c = Some (s1, Inr v)"
    and v: "v \<noteq> VUndefined"
  shows "get_times (Suc (Suc n)) (Suc N) s c key = Some (set_value s1 r v, replicate (Suc N) (Inr v))
     \<and> lookup (deps (set_value s1 r v)) r = Some (ConfiguredDependency k f v)
     \<and> invoked (set_value s1 r v) = invoked s1
     \<and> ((\<forall>cl. f \<noteq> AutoWire cl) \<longrightarrow> invoked s1 = invoked s @ [f])
     \<and> (\<forall>t j c'. lookup (deps t) r = Some (ConfiguredDependency k f v) \<longrightarrow>
           resolveValue (Suc j) t r c' = Some (t, Inr v))"
proof -
  define s2 where "s2 = set_value s1 r v"
  from call have f1: "frame s s1" by (rule frame_all(3))
  then have f2: "frame s s2"
    unfolding s2_def by (rule frame_trans) simp
  from frame_shape[OF f1 d] obtain v' where "lookup (deps s1) r = Some (ConfiguredDependency k f v')" ..
  then have d2: "lookup (deps s2) r = Some (ConfiguredDependency k f v)"
    unfolding s2_def by (rule set_value_lookup)
  from f2 c m have c2: "lookup (containers s2) c = Some this"
    and m2: "lookup (records s2) (cvalues this) = Some m"
    by (simp_all add: frame_def)
  have first: "get (Suc (Suc n)) s c (Key key) = Some (s2, Inr v)"
    using c m k d call by (simp add: get_def s2_def)
  have rest: "get_times (Suc (Suc n)) N s2 c key = Some (s2, replicate N (Inr v))"
    using c2 m2 k d2 v by (rule cached_get_times)
  have log: "invoked s2 = invoked s1"
    by (simp add: s2_def set_value_def split: option.splits dep.splits)
  have once: "invoked s1 = invoked s @ [f]" if "\<forall>cl. f \<noteq> AutoWire cl"
    using call that
    by (cases n; cases f) (auto simp: new_object_def Let_def split: option.splits)
  from first rest d2 log once v show ?thesis
    by (simp add: s2_def)
qed

theorem resolve_once_witness:
  "\<exists>s'. get_times (Suc (Suc 1)) (Suc 4) built 0 ''sample'' = Some (s', replicate (Suc 4) (Inr (VObj 0)))
      \<and> lookup (deps s') 0 = Some (ConfiguredDependency ''sample'' (Creating SampleService []) (VObj 0))
      \<and> invoked s' = [Creating SampleService []]"
proof -
  define s1 where "s1 = built\<lparr>invoked := [Creating SampleService []], objects := [(SampleService, [])]\<rparr>"
  have c: "lookup (containers built) 0 = Some \<lparr>cvalues = 0, parent = None, provenance = None\<rparr>"
    and m: "lookup (records built) (cvalues \<lparr>cvalues = 0, parent = None, provenance = None\<rparr>) =
      Some [(''sample'', 0)]"
    and k: "map_of [(''sample'', 0::nat)] ''sample'' = Some 0"
    and d: "lookup (deps built) 0 =
      Some (ConfiguredDependency ''sample'' (Creating SampleService []) VUndefined)"
    and call: "callFactory 1 built (Creating SampleService []) 0 = Some (s1, Inr (VObj 0))"
    and i: "invoked built = []"
    by (simp_all add: built_eq lookup_def new_object_def SampleService_def s1_def)
  from resolve_once[OF c m k d call, of 4] i show ?thesis
    by simp
qed

section \<open>Child containers (C1)\<close>







lemma invoked_set_value [simp]: "invoked (set_value t r w) = invoked t"
  by (simp add: set_value_def split: option.splits dep.splits)




section \<open>Auto-wiring (C3)\<close>








section \<open>Errors during resolution (C4)\<close>

text \<open>
  For a single record the claim holds: the error of the factory comes out as it was
  thrown, and the record is not written.
\<close>

lemma throwing_factory_leaves_record_unresolved:
  assumes "lookup (deps s) r = Some (ConfiguredDependency k (Throwing e) VUndefined)"
  shows "resolveValue (Suc (Suc n)) s r c = Some (s\<lparr>invoked := invoked s @ [Throwing e]\<rparr>, Inl (Thrown e))"
  using assms by simp

text \<open>
  C4 fails for a multi-binding record: \<^verbatim>\<open>ArrayDependency.resolveValue\<close> sets
  \<^verbatim>\<open>resolved\<close> before it resolves its entries. With one entry whose factory throws,
  \<^verbatim>\<open>get\<close> throws that error unchanged, the entry (record 1) stays unresolved, and the
  multi-binding record (record 0) answers \<^verbatim>\<open>isResolved()\<close> with true.
\<close>

theorem array_resolved_after_throw:
  "(let (s0, x) = new_ServiceCollection empty_state;
        (s1, u) = the (addDependency s0 x ''policies'' (Function (Throwing ''boom'')));
        (s2, c) = the (buildContainer s1 x);
        (s3, res) = the (get 4 s2 c (Key ''policies''))
    in (res, map_option isResolved (lookup (deps s3) 0), map_option isResolved (lookup (deps s3) 1))) =
   (Inl (Thrown ''boom''), Some True, Some False)"
  by code_simp

section \<open>Disposal (C5)\<close>

text \<open>
  For a single record that holds an object the claim holds, as in the test
  \<^verbatim>\<open>Disposing the container resets the instances\<close>: \<^verbatim>\<open>dispose\<close> calls the hook of
  the object once and clears the record, a second \<^verbatim>\<open>dispose\<close> changes nothing, and the
  next \<^verbatim>\<open>get\<close> calls the factory again.
\<close>

lemma dispose_resets_single_record:
  "(let (s0, x) = new_ServiceCollection empty_state;
        s1 = the (register s0 x ''conn'' (Function (Creating Connection [])));
        (s2, c) = the (buildContainer s1 x);
        (s3, v) = the (get 4 s2 c (Key ''conn''));
        s4 = the (dispose s3 c);
        s4' = the (dispose s4 c);
        (s5, v') = the (get 4 s4 c (Key ''conn''))
    in (v, disposed s4, s4' = s4, map_option isResolved (lookup (deps s4) 0), v', invoked s5)) =
   (Inr (VObj 0), [0], True, Some False, Inr (VObj 1), [Creating Connection [], Creating Connection []])"
  by code_simp

text \<open>
  C5 fails for a resolved multi-binding record: \<^verbatim>\<open>dispose\<close> calls no hook, the record
  and its entry stay resolved, and the next \<^verbatim>\<open>get\<close> returns the same object without
  calling the factory. It also fails for a single record whose cached value is falsy,
  here the number 0: the record stays resolved and the factory is not called again.
\<close>

theorem dispose_skips_arrays_and_falsy_values:
  "(let (s0, x) = new_ServiceCollection empty_state;
        (s1, u) = the (addDependency s0 x ''pool'' (Function (Creating Connection [])));
        (s2, c) = the (buildContainer s1 x);
        (s3, v) = the (get 4 s2 c (Key ''pool''));
        s4 = the (dispose s3 c);
        (s5, v') = the (get 4 s4 c (Key ''pool''))
    in (v, disposed s4, map (map_option isResolved \<circ> lookup (deps s4)) [0, 1], v', invoked s5)) =
   (Inr (VArr [VObj 0]), [], [Some True, Some True], Inr (VArr [VObj 0]), [Creating Connection []])
   \<and>
   (let (s0, x) = new_ServiceCollection empty_state;
        s1 = the (register s0 x ''zero'' (Function (Returning (VNum 0))));
        (s2, c) = the (buildContainer s1 x);
        (s3, v) = the (get 4 s2 c (Key ''zero''));
        s4 = the (dispose s3 c);
        (s5, v') = the (get 4 s4 c (Key ''zero''))
    in (v, map_option isResolved (lookup (deps s4) 0), v', invoked s5)) =
   (Inr (VNum 0), Some True, Inr (VNum 0), [Returning (VNum 0)])"
  by code_simp

section \<open>Cloning and forking (C6)\<close>

text \<open>For a single record the claim holds: the clone has the factory and no value.\<close>

lemma clone_single_record:
  "clone (ConfiguredDependency key f v) = ConfiguredDependency key f VUndefined"
  by simp

text \<open>
  C6 fails for a multi-binding record. After the fork, the record of the parent (record 0)
  and the record of the child (record 2) point to the same array 0, whose entry is record
  1. \<^verbatim>\<open>get\<close> on the child caches the new object in that entry, and \<^verbatim>\<open>get\<close> on the
  parent then returns the same object; the factory was called once. An entry appended to
  the multi-binding record of the collection and the parent after the fork is returned by
  the child too.
\<close>

theorem fork_shares_array:
  "(let (s0, x) = new_ServiceCollection empty_state;
        (s1, u) = the (addDependency s0 x ''policies'' (Function (Creating SampleService [])));
        (s2, p) = the (buildContainer s1 x);
        (s3, c) = the (createChildContainer s2 p ''child'');
        (s4, v) = the (get 4 s3 c (Key ''policies''));
        (s5, v') = the (get 4 s4 p (Key ''policies''));
        (s6, u') = the (addDependency s5 x ''policies'' (Value (VStr ''late'')));
        (s7, v'') = the (get 4 s6 c (Key ''policies''))
    in (p, c, map (lookup (deps s3)) [0, 2], v, lookup (deps s4) 1, v', invoked s5, v'')) =
   (0, 1, [Some (ArrayDependency ''policies'' False 0), Some (ArrayDependency ''policies'' False 0)],
    Inr (VArr [VObj 0]),
    Some (ConfiguredDependency ''policies-0'' (Creating SampleService []) (VObj 0)),
    Inr (VArr [VObj 0]), [Creating SampleService []], Inr (VArr [VObj 0, VStr ''late'']))"
  by code_simp

end
